theory Spec2Isabelle
  imports Complex_Main "HOL-Library.Sublist" "HOL-Library.Log_Nat"
begin

section \<open>Training weather dashboard: the decision core of Streamlit\_Weather.py\<close>

text \<open>
  The helpers of \<^verbatim>\<open>src/Streamlit_Weather.py\<close> (lines 69 to 186) are pure functions of
  numbers and strings. They are embedded here one by one, under their own names and with
  the branches in the order of the source.

  Numbers. A Python float is an IEEE 754 double. The type \<open>pyfloat\<close> holds a finite
  value (as the real it denotes), one of the two infinities or NaN; comparisons give the
  results Python gives, and \<open>rnd\<close> rounds a real to the nearest double, ties to even. The
  conversions \<^verbatim>\<open>f_to_c\<close> and \<^verbatim>\<open>c_to_f\<close> are modelled in this double arithmetic, each
  operation rounded, and a float literal of a comparison (\<^verbatim>\<open>81.9\<close>) is the double nearest
  to its decimal value. The two zeros of the format are not told apart: they compare
  equal and differ in no result used here. \<^verbatim>\<open>wind_chill_f\<close>, \<^verbatim>\<open>approx_natural_wet_bulb\<close>
  and \<^verbatim>\<open>approx_wbgt\<close> call \<^verbatim>\<open>**\<close>, \<^verbatim>\<open>math.atan\<close> and \<^verbatim>\<open>math.sqrt\<close>, whose rounding is
  that of the C library; they are modelled on \<open>real\<close> with exact arithmetic, and what is
  proved of them does not depend on rounding.

  Strings. A Python \<^verbatim>\<open>str\<close> is modelled as a \<open>string\<close> holding its UTF-8 bytes; the
  em dash of the decision messages is the three bytes E2 80 94.
\<close>

subsection \<open>Floats and their comparisons\<close>

datatype pyfloat = Fin real | PInf | NInf | NaN

text \<open>\<^verbatim>\<open>a <= b\<close> and \<^verbatim>\<open>a < b\<close> on floats: false as soon as one side is NaN.\<close>

fun fle :: "pyfloat \<Rightarrow> pyfloat \<Rightarrow> bool" where
  "fle NaN b = False"
| "fle a NaN = False"
| "fle NInf b = True"
| "fle a PInf = True"
| "fle (Fin x) (Fin y) = (x \<le> y)"
| "fle a b = False"

fun flt :: "pyfloat \<Rightarrow> pyfloat \<Rightarrow> bool" where
  "flt NaN b = False"
| "flt a NaN = False"
| "flt (Fin x) (Fin y) = (x < y)"
| "flt NInf NInf = False"
| "flt PInf PInf = False"
| "flt NInf b = True"
| "flt a PInf = True"
| "flt a b = False"

text \<open>\<^verbatim>\<open>a >= b\<close> is \<^verbatim>\<open>b <= a\<close>, and \<^verbatim>\<open>a > b\<close> is \<^verbatim>\<open>b < a\<close>.\<close>

definition fge :: "pyfloat \<Rightarrow> pyfloat \<Rightarrow> bool" where
  "fge a b = fle b a"

definition fgt :: "pyfloat \<Rightarrow> pyfloat \<Rightarrow> bool" where
  "fgt a b = flt b a"

subsection \<open>Double arithmetic\<close>

text \<open>
  Rounding to the nearest integer, ties to the even one.
\<close>

definition round_half_even :: "real \<Rightarrow> int" where
  "round_half_even q =
     (let f = \<lfloor>q\<rfloor>; d = q - of_int f
      in if d < 1/2 then f else if d > 1/2 then f + 1 else if even f then f else f + 1)"

text \<open>
  A double has 53 significant bits and an exponent from \<open>-1022\<close> to \<open>1023\<close>. Around a
  real \<open>x\<close> with \<open>2 ^ e \<le> \<bar>x\<bar> < 2 ^ (e + 1)\<close> the doubles are the multiples of
  \<open>2 ^ (e - 52)\<close>; below \<open>2 ^ (-1022)\<close> (the subnormal range) they are the multiples of
  \<open>2 ^ (-1074)\<close>. \<open>nearest x\<close> is the multiple nearest to \<open>x\<close>, and \<open>rnd x\<close> is the
  double the operation returns: an infinity when the rounded value reaches \<open>2 ^ 1024\<close>.
\<close>

definition expo :: "real \<Rightarrow> int" where
  "expo x = max \<lfloor>log 2 \<bar>x\<bar>\<rfloor> (-1022)"

definition ulp :: "real \<Rightarrow> real" where
  "ulp x = 2 powi (expo x - 52)"

definition nearest :: "real \<Rightarrow> real" where
  "nearest x = of_int (round_half_even (x / ulp x)) * ulp x"

definition rnd :: "real \<Rightarrow> pyfloat" where
  "rnd x =
     (let r = nearest x
      in if r \<ge> 2 ^ 1024 then PInf else if r \<le> - (2 ^ 1024) then NInf else Fin r)"

text \<open>The exceptions the modelled code can meet.\<close>

datatype pyerr = TypeError | ValueError | OverflowError | ZeroDivisionError

text \<open>
  \<^verbatim>\<open>a + b\<close>, \<^verbatim>\<open>a - b\<close> and \<^verbatim>\<open>a * b\<close> on floats: the exact result rounded, with the
  IEEE results on infinities and NaN. \<^verbatim>\<open>a / b\<close> raises \<^verbatim>\<open>ZeroDivisionError\<close> when
  \<open>b\<close> is zero.
\<close>

fun fadd :: "pyfloat \<Rightarrow> pyfloat \<Rightarrow> pyfloat" where
  "fadd (Fin x) (Fin y) = rnd (x + y)"
| "fadd NaN b = NaN"
| "fadd a NaN = NaN"
| "fadd PInf NInf = NaN"
| "fadd NInf PInf = NaN"
| "fadd PInf b = PInf"
| "fadd a PInf = PInf"
| "fadd NInf b = NInf"
| "fadd a NInf = NInf"

fun fsub :: "pyfloat \<Rightarrow> pyfloat \<Rightarrow> pyfloat" where
  "fsub (Fin x) (Fin y) = rnd (x - y)"
| "fsub NaN b = NaN"
| "fsub a NaN = NaN"
| "fsub PInf PInf = NaN"
| "fsub NInf NInf = NaN"
| "fsub PInf b = PInf"
| "fsub a PInf = NInf"
| "fsub NInf b = NInf"
| "fsub a NInf = PInf"

definition inf_signed :: "bool \<Rightarrow> pyfloat" where
  "inf_signed positive = (if positive then PInf else NInf)"

fun fmul :: "pyfloat \<Rightarrow> pyfloat \<Rightarrow> pyfloat" where
  "fmul (Fin x) (Fin y) = rnd (x * y)"
| "fmul NaN b = NaN"
| "fmul a NaN = NaN"
| "fmul PInf (Fin y) = (if y = 0 then NaN else inf_signed (0 < y))"
| "fmul NInf (Fin y) = (if y = 0 then NaN else inf_signed (y < 0))"
| "fmul (Fin x) PInf = (if x = 0 then NaN else inf_signed (0 < x))"
| "fmul (Fin x) NInf = (if x = 0 then NaN else inf_signed (x < 0))"
| "fmul PInf PInf = PInf"
| "fmul NInf NInf = PInf"
| "fmul PInf NInf = NInf"
| "fmul NInf PInf = NInf"

fun fdiv :: "pyfloat \<Rightarrow> pyfloat \<Rightarrow> pyerr + pyfloat" where
  "fdiv a (Fin y) =
     (if y = 0 then Inl ZeroDivisionError
      else case a of
             Fin x \<Rightarrow> Inr (rnd (x / y))
           | PInf \<Rightarrow> Inr (inf_signed (0 < y))
           | NInf \<Rightarrow> Inr (inf_signed (y < 0))
           | NaN \<Rightarrow> Inr NaN)"
| "fdiv NaN b = Inr NaN"
| "fdiv a NaN = Inr NaN"
| "fdiv (Fin x) b = Inr (Fin 0)"
| "fdiv a b = Inr NaN"

subsection \<open>Unit conversion (lines 69 to 73)\<close>

text \<open>
  \<^verbatim>\<open>(Tf - 32.0) * 5.0 / 9.0\<close> is \<^verbatim>\<open>((Tf - 32.0) * 5.0) / 9.0\<close> and
  \<^verbatim>\<open>Tc * 9.0 / 5.0 + 32.0\<close> is \<^verbatim>\<open>((Tc * 9.0) / 5.0) + 32.0\<close>, each operation on doubles.
  The literals \<open>32.0\<close>, \<open>5.0\<close> and \<open>9.0\<close> are doubles as they stand. The result is
  \<open>Inr\<close> of the float, or \<open>Inl\<close> of the exception of the division.
\<close>

definition f_to_c :: "pyfloat \<Rightarrow> pyerr + pyfloat" where
  "f_to_c Tf = fdiv (fmul (fsub Tf (Fin 32.0)) (Fin 5.0)) (Fin 9.0)"

definition c_to_f :: "pyfloat \<Rightarrow> pyerr + pyfloat" where
  "c_to_f Tc =
     (case fdiv (fmul Tc (Fin 9.0)) (Fin 5.0) of
        Inl e \<Rightarrow> Inl e
      | Inr q \<Rightarrow> Inr (fadd q (Fin 32.0)))"

subsection \<open>Wind chill (lines 75 to 78)\<close>

text \<open>
  \<^verbatim>\<open>None\<close> is \<open>None\<close>. The power \<^verbatim>\<open>wind_mph ** 0.16\<close> is only reached with
  \<open>wind_mph > 3\<close>, where it is the real power \<open>powr\<close>.
\<close>

definition wind_chill_f :: "real \<Rightarrow> real \<Rightarrow> real option" where
  "wind_chill_f Tf wind_mph =
     (if Tf > 50 \<or> wind_mph \<le> 3 then None
      else Some (35.74 + 0.6215 * Tf - 35.75 * (wind_mph powr 0.16)
                 + 0.4275 * Tf * (wind_mph powr 0.16)))"

subsection \<open>WBGT estimate (lines 80 to 91)\<close>

text \<open>
  The first statement of \<^verbatim>\<open>approx_natural_wet_bulb\<close> rebinds \<^verbatim>\<open>rh\<close> to
  \<^verbatim>\<open>max(0.0, min(100.0, rh))\<close>; the rest of the body reads the rebound value, so
  \<^verbatim>\<open>rh ** 1.5\<close> has a base in \<open>[0, 100]\<close> and is \<open>powr\<close> (with \<open>0 powr 1.5 = 0\<close>, as
  \<^verbatim>\<open>0.0 ** 1.5\<close> is \<open>0.0\<close>).
\<close>

definition approx_natural_wet_bulb :: "real \<Rightarrow> real \<Rightarrow> real" where
  "approx_natural_wet_bulb Tc rh0 =
     (let rh = max 0.0 (min 100.0 rh0)
      in Tc * arctan (0.151977 * sqrt (rh + 8.313659))
         + arctan (Tc + rh) - arctan (rh - 1.676331)
         + 0.00391838 * (rh powr 1.5) * arctan (0.023101 * rh)
         - 4.686035)"

text \<open>The result is the triple \<^verbatim>\<open>(wbgt_c, Tw, Tg)\<close>.\<close>

definition approx_wbgt :: "real \<Rightarrow> real \<Rightarrow> bool \<Rightarrow> real \<Rightarrow> real \<times> real \<times> real" where
  "approx_wbgt Tc rh sunny globe_offset_c =
     (let Tw = approx_natural_wet_bulb Tc rh;
          Tg = (if sunny then Tc + globe_offset_c else Tc);
          wbgt_c = 0.7 * Tw + 0.3 * Tg
      in (wbgt_c, Tw, Tg))"

subsection \<open>Heat category (lines 93 to 104)\<close>

text \<open>
  A chained comparison \<^verbatim>\<open>78 <= x <= 81.9\<close> is \<^verbatim>\<open>78 <= x and x <= 81.9\<close>. The integer
  literals are compared by their exact value; the float literals \<^verbatim>\<open>81.9\<close>, \<^verbatim>\<open>84.9\<close>,
  \<^verbatim>\<open>87.9\<close> and \<^verbatim>\<open>89.9\<close> are the doubles nearest to these decimals. The result is the pair
  of the label and the category number.
\<close>

definition heat_category_from_wbgt_f :: "pyfloat \<Rightarrow> string \<times> int" where
  "heat_category_from_wbgt_f wbgt_f =
     (if flt wbgt_f (Fin 78) then (''Below White'', 1)
      else if fle (Fin 78) wbgt_f \<and> fle wbgt_f (rnd 81.9) then (''White (Cat 1)'', 1)
      else if fle (Fin 82) wbgt_f \<and> fle wbgt_f (rnd 84.9) then (''Green (Cat 2)'', 2)
      else if fle (Fin 85) wbgt_f \<and> fle wbgt_f (rnd 87.9) then (''Yellow (Cat 3)'', 3)
      else if fle (Fin 88) wbgt_f \<and> fle wbgt_f (rnd 89.9) then (''Red (Cat 4)'', 4)
      else (''Black (Cat 5)'', 5))"

text \<open>
  The table of the specification (section 4.4), for comparison with the function above:
  half-open bands \<open>< 78\<close>, \<open>[78, 82)\<close>, \<open>[82, 85)\<close>, \<open>[85, 88)\<close>, \<open>[88, 90)\<close>, \<open>\<ge> 90\<close> on
  the reals, with the labels and numbers the source returns for the six categories.
\<close>

definition heat_category_table :: "real \<Rightarrow> string \<times> int" where
  "heat_category_table x =
     (if x < 78 then (''Below White'', 1)
      else if x < 82 then (''White (Cat 1)'', 1)
      else if x < 85 then (''Green (Cat 2)'', 2)
      else if x < 88 then (''Yellow (Cat 3)'', 3)
      else if x < 90 then (''Red (Cat 4)'', 4)
      else (''Black (Cat 5)'', 5))"

subsection \<open>Condition text (lines 106 to 128)\<close>

text \<open>
  \<^verbatim>\<open>str.lower\<close> on the bytes of the text: the letters A to Z go to a to z, every other
  byte stays. The keywords are ASCII, and no character outside ASCII lowers to a string
  that completes one of them, so the membership tests see what Python sees.
\<close>

definition lower_char :: "char \<Rightarrow> char" where
  "lower_char c =
     (let n = (of_char c :: nat)
      in if 65 \<le> n \<and> n \<le> 90 then char_of (n + 32) else c)"

definition lower :: "string \<Rightarrow> string" where
  "lower s = map lower_char s"

text \<open>\<^verbatim>\<open>sub in c\<close> on strings: \<open>sub\<close> occurs in \<open>c\<close> as a contiguous block.\<close>

definition is_in :: "string \<Rightarrow> string \<Rightarrow> bool" where
  "is_in sub c = sublist sub c"

definition em_dash :: string where
  "em_dash = [CHR 0xE2, CHR 0x80, CHR 0x94]"

text \<open>
  \<^verbatim>\<open>(cond_text or "")\<close> turns \<^verbatim>\<open>None\<close> (and the empty string) into the empty string.
  The result is the triple of severity, note and override.
\<close>

definition interpret_condition :: "string option \<Rightarrow> string \<times> string \<times> string option" where
  "interpret_condition cond_text =
     (let c = lower (case cond_text of None \<Rightarrow> [] | Some t \<Rightarrow> t)
      in if is_in ''thunder'' c \<or> is_in ''storm'' c
           then (''extreme'', ''Thunderstorm / lightning risk'', Some ''NO OUTDOOR TRAINING'')
         else if is_in ''freezing rain'' c \<or> (is_in ''freezing'' c \<and> is_in ''rain'' c)
           then (''extreme'', ''Freezing rain / ice risk'', Some ''NO OUTDOOR TRAINING'')
         else if is_in ''sleet'' c \<or> is_in ''ice'' c \<or> is_in ''icy'' c
           then (''extreme'', ''Icy conditions'', Some ''NO OUTDOOR TRAINING'')
         else if is_in ''blizzard'' c
           then (''extreme'', ''Blizzard / near-zero visibility'', Some ''NO OUTDOOR_TRAINING'')
         else if is_in ''heavy snow'' c
           then (''high'', ''Heavy snow '' @ em_dash @ '' visibility & slip risk'', None)
         else if is_in ''snow'' c \<or> is_in ''flurr'' c
           then (''moderate'', ''Snow present '' @ em_dash @ '' traction/visibility caution'', None)
         else if is_in ''heavy rain'' c \<or> is_in ''torrential'' c
           then (''high'', ''Heavy rain '' @ em_dash @ '' hypothermia & slip risk'', None)
         else if is_in ''rain'' c \<or> is_in ''shower'' c
           then (''moderate'', ''Rain '' @ em_dash @ '' wet/hypothermia risk'', None)
         else if is_in ''drizzle'' c \<or> is_in ''light rain'' c
           then (''low'', ''Light rain / drizzle'', None)
         else if is_in ''fog'' c \<or> is_in ''mist'' c
           then (''moderate'', ''Fog / reduced visibility'', None)
         else (''low'', ''No precipitation hazards'', None))"

subsection \<open>Duty uniform (lines 130 to 150)\<close>

text \<open>
  \<^verbatim>\<open>wind_chill_f\<close> and \<^verbatim>\<open>heat_cat_num\<close> may be \<^verbatim>\<open>None\<close>. When the wind chill is present
  and above 32 the inner block returns nothing and control falls to the temperature test,
  as in the source.
\<close>

definition recommend_uniform_option_a ::
  "pyfloat \<Rightarrow> pyfloat option \<Rightarrow> int option \<Rightarrow> bool \<Rightarrow> string \<Rightarrow> string \<times> int" where
  "recommend_uniform_option_a temp_f wind_chill heat_cat_num wbgt_applicable precip_level =
     (if wbgt_applicable \<and> heat_cat_num \<noteq> None then
        (if the heat_cat_num \<ge> 5
           then (''Light clothing only; no armor; full hydration and move indoors'', 3)
         else if the heat_cat_num = 4
           then (''Light OCP/PT, reduce load, hydrate frequently'', 2)
         else if the heat_cat_num = 3
           then (''OCP, consider modified load and frequent water breaks'', 1)
         else (''Standard OCP/PT uniform'', 0))
      else if wind_chill \<noteq> None \<and> fle (the wind_chill) (Fin (-20))
        then (''Arctic clothing / extreme cold gear. No exposed skin. No outdoor training.'', 3)
      else if wind_chill \<noteq> None \<and> fle (the wind_chill) (Fin 0)
        then (''Parka + layered clothing + gloves + balaclava. Move indoors for prolonged training.'', 2)
      else if wind_chill \<noteq> None \<and> fle (the wind_chill) (Fin 20)
        then (''OCP + parka + gloves + warm layers. Limit prolonged exposed activities.'', 2)
      else if wind_chill \<noteq> None \<and> fle (the wind_chill) (Fin 32)
        then (''OCP + fleece + gloves recommended.'', 1)
      else if fle temp_f (Fin 50) \<and> fgt temp_f (Fin 33)
        then (''OCP + fleece optional; monitor wind and wetness.'', 1)
      else (''Standard OCP/PT uniform'', 0))"

subsection \<open>PT uniform (lines 152 to 165)\<close>

text \<open>
  The argument is any Python value. \<^verbatim>\<open>float(temp_f)\<close> raises \<^verbatim>\<open>TypeError\<close> on
  \<^verbatim>\<open>None\<close>, gives \<open>1.0\<close> or \<open>0.0\<close> on a boolean, returns a float as it is, rounds an
  integer to the nearest double and raises \<^verbatim>\<open>OverflowError\<close> when that is beyond the
  float range, and raises \<^verbatim>\<open>ValueError\<close> on a string that is not a number literal. How
  the built-in reads a string is not code of this program: it is the parameter \<open>parse\<close>,
  with \<open>None\<close> for a string it rejects. Any other object (bytes, a \<^verbatim>\<open>Decimal\<close>, a list,
  an instance with \<^verbatim>\<open>__float__\<close> or \<^verbatim>\<open>__index__\<close>) is \<open>PyObject r\<close>, where \<open>r\<close> is what
  \<^verbatim>\<open>float\<close> does on it: the float it returns or the exception it raises (an instance of
  \<^verbatim>\<open>Exception\<close>, which is what the \<^verbatim>\<open>except\<close> clause of the source catches).
\<close>

datatype pyval =
  PyNone | PyBool bool | PyInt int | PyFloat pyfloat | PyStr string | PyObject "pyerr + pyfloat"

definition py_float :: "(string \<Rightarrow> pyfloat option) \<Rightarrow> pyval \<Rightarrow> pyerr + pyfloat" where
  "py_float parse v =
     (case v of
        PyNone \<Rightarrow> Inl TypeError
      | PyBool b \<Rightarrow> Inr (Fin (if b then 1 else 0))
      | PyInt i \<Rightarrow> (case rnd (of_int i) of Fin r \<Rightarrow> Inr (Fin r) | _ \<Rightarrow> Inl OverflowError)
      | PyFloat x \<Rightarrow> Inr x
      | PyStr s \<Rightarrow> (case parse s of None \<Rightarrow> Inl ValueError | Some x \<Rightarrow> Inr x)
      | PyObject r \<Rightarrow> r)"

definition recommend_pt_uniform :: "(string \<Rightarrow> pyfloat option) \<Rightarrow> pyval \<Rightarrow> string" where
  "recommend_pt_uniform parse temp_f =
     (case py_float parse temp_f of
        Inl e \<Rightarrow> ''Standard PT uniform''
      | Inr t \<Rightarrow>
          (if fgt t (Fin 80) then ''APFU Short-sleeve + shorts''
           else if fle (Fin 60) t \<and> fle t (Fin 80)
             then ''APFU Short-sleeve shirt + APFU shorts''
           else if fle (Fin 40) t \<and> fle t (Fin 59)
             then ''APFU Short-sleeve + APFU Long-sleeve + APFU shorts''
           else if fle (Fin 20) t \<and> fle t (Fin 39)
             then ''APFU Short-sleeve + APFU Long-sleeve + APFU Pants + APFU Jacket + Fleece Cap''
           else ''APFU Short-sleeve + APFU Long-sleeve + APFU Pants + APFU Jacket + Fleece Cap + Gloves''))"

text \<open>The strings returned by the five temperature bands, in the order of the source.\<close>

definition pt_band_strings :: "string list" where
  "pt_band_strings =
     [''APFU Short-sleeve + shorts'',
      ''APFU Short-sleeve shirt + APFU shorts'',
      ''APFU Short-sleeve + APFU Long-sleeve + APFU shorts'',
      ''APFU Short-sleeve + APFU Long-sleeve + APFU Pants + APFU Jacket + Fleece Cap'',
      ''APFU Short-sleeve + APFU Long-sleeve + APFU Pants + APFU Jacket + Fleece Cap + Gloves'']"

subsection \<open>Final training decision (lines 167 to 186)\<close>

text \<open>
  \<^verbatim>\<open>if precip_override:\<close> tests truthiness: \<^verbatim>\<open>None\<close> and the empty string are false,
  every other string is true. \<^verbatim>\<open>temp_f\<close> is a parameter the body never reads.
\<close>

definition truthy :: "string option \<Rightarrow> bool" where
  "truthy s = (case s of None \<Rightarrow> False | Some t \<Rightarrow> t \<noteq> [])"

definition final_training_decision ::
  "pyfloat \<Rightarrow> pyfloat option \<Rightarrow> int option \<Rightarrow> bool \<Rightarrow> string option \<Rightarrow> string \<Rightarrow> string" where
  "final_training_decision temp_f wind_chill heat_cat_num wbgt_applicable precip_override precip_level =
     (if truthy precip_override then the precip_override
      else if wind_chill \<noteq> None \<and> fle (the wind_chill) (Fin (-20))
        then ''NO OUTDOOR TRAINING '' @ em_dash @ '' EXTREME COLD''
      else if wind_chill \<noteq> None \<and> fle (the wind_chill) (Fin 0)
        then ''MOVE TRAINING INDOORS / HIGH COLD RISK''
      else if wind_chill \<noteq> None \<and> fle (the wind_chill) (Fin 20)
        then ''LIMIT OUTDOOR TRAINING / USE INDOORS WHEN POSSIBLE (COLD CAUTION)''
      else if precip_level = ''high''
        then ''LIMIT OUTDOOR TRAINING / USE INDOORS WHEN POSSIBLE (PRECIPITATION)''
      else if wbgt_applicable \<and> heat_cat_num \<noteq> None then
        (if the heat_cat_num \<ge> 5 then ''NO OUTDOOR TRAINING '' @ em_dash @ '' EXTREME HEAT (BLACK FLAG)''
         else if the heat_cat_num = 4
           then ''LIMIT OUTDOOR TRAINING / USE INDOORS WHEN POSSIBLE (HEAT)''
         else if the heat_cat_num = 3 then ''TRAIN OUTDOORS WITH CAUTION (HEAT)''
         else ''TRAIN OUTDOORS (NO RESTRICTIONS)'')
      else ''TRAIN OUTDOORS (NO RESTRICTIONS)'')"

section \<open>Properties\<close>

subsection \<open>Rounding to a double\<close>

text \<open>
  The rounded value is within half a unit in the last place of the real it rounds; below
  the overflow range that is a relative error of at most \<open>2 ^ (-53)\<close>, or an absolute error
  of at most \<open>2 ^ (-1075)\<close> in the subnormal range. \<open>rnd_eval\<close> computes the double of a
  concrete real from the power of two below it.
\<close>

lemma round_half_even_error: "\<bar>of_int (round_half_even q) - q\<bar> \<le> 1/2"
  unfolding round_half_even_def Let_def by (auto simp: abs_if) linarith+

lemma floor_log_le: assumes "x \<noteq> 0" shows "2 powi \<lfloor>log 2 \<bar>x\<bar>\<rfloor> \<le> \<bar>x\<bar>"
proof -
  have pos: "0 < \<bar>x\<bar>" using assms by simp
  have "2 powr (of_int \<lfloor>log 2 \<bar>x\<bar>\<rfloor>) \<le> 2 powr (log 2 \<bar>x\<bar>)"
    by (rule powr_mono) simp_all
  also have "\<dots> = \<bar>x\<bar>" using pos by simp
  finally show ?thesis by (simp add: powr_real_of_int')
qed

lemma floor_log_eq:
  assumes "2 powi k \<le> \<bar>x\<bar>" and "\<bar>x\<bar> < 2 powi (k + 1)"
  shows "\<lfloor>log 2 \<bar>x\<bar>\<rfloor> = k"
proof -
  have pos: "0 < \<bar>x\<bar>" using assms(1) by (smt (verit) zero_less_power_int)
  have p1: "2 powr real_of_int k = 2 powi k" by (simp add: powr_real_of_int')
  have p2: "2 powr real_of_int (k + 1) = 2 powi (k + 1)" by (rule powr_real_of_int') simp_all
  have "real_of_int k \<le> log 2 \<bar>x\<bar>"
    using assms(1) pos by (simp add: le_log_iff p1)
  moreover have "log 2 \<bar>x\<bar> < real_of_int (k + 1)"
    using assms(2) pos by (simp only: log_less_iff [of 2, simplified] p2)
  ultimately show ?thesis by (simp add: floor_eq_iff)
qed

text \<open>
  The exponent computed from bit lengths, as a code equation: with it \<open>rnd\<close> and the
  float operations evaluate on rational arguments.
\<close>

lemma two_power_le_of_int:
  assumes "2 ^ k \<le> (n::int)" shows "(2::real) ^ k \<le> of_int n"
proof -
  have "real_of_int (2 ^ k) \<le> of_int n" using assms by (simp only: of_int_le_iff)
  then show ?thesis by simp
qed

lemma of_int_less_two_power:
  assumes "(n::int) < 2 ^ k" shows "real_of_int n + 1 \<le> 2 ^ k"
proof -
  have "n + 1 \<le> 2 ^ k" using assms by simp
  then have "real_of_int (n + 1) \<le> of_int (2 ^ k)" by (simp only: of_int_le_iff)
  then show ?thesis by simp
qed

lemma expo_code [code]:
  "expo x =
     (if x = 0 then 0
      else if 1 \<le> \<bar>x\<bar> then max (bitlen \<lfloor>\<bar>x\<bar>\<rfloor> - 1) (-1022)
      else max (- bitlen (\<lceil>1 / \<bar>x\<bar>\<rceil> - 1)) (-1022))"
proof -
  consider "x = 0" | "1 \<le> \<bar>x\<bar>" | "x \<noteq> 0" "\<bar>x\<bar> < 1" by linarith
  then show ?thesis
  proof cases
    case 1
    then show ?thesis by (simp add: expo_def log_def)
  next
    case 2
    define n where "n = \<lfloor>\<bar>x\<bar>\<rfloor>"
    have n1: "1 \<le> n" using 2 by (simp add: n_def le_floor_iff)
    have nx: "of_int n \<le> \<bar>x\<bar>" "\<bar>x\<bar> < of_int n + 1" by (simp_all add: n_def)
    from bitlen_bounds [of n] n1
    have b: "2 ^ nat (bitlen n - 1) \<le> n" "n < 2 ^ nat (bitlen n)" by simp_all
    have bl: "1 \<le> bitlen n" using n1 by (simp add: bitlen_def floorlog_def split: if_splits)
    have p1: "(2::real) powi (bitlen n - 1) = 2 ^ nat (bitlen n - 1)"
      using bl by (simp add: power_int_def)
    have p2: "(2::real) powi (bitlen n - 1 + 1) = 2 ^ nat (bitlen n)"
      using bl by (simp add: power_int_def)
    have l: "2 powi (bitlen n - 1) \<le> \<bar>x\<bar>"
      unfolding p1 using two_power_le_of_int [OF b(1)] nx(1) by linarith
    have u: "\<bar>x\<bar> < 2 powi (bitlen n - 1 + 1)"
      unfolding p2 using of_int_less_two_power [OF b(2)] nx(2) by linarith
    have "\<lfloor>log 2 \<bar>x\<bar>\<rfloor> = bitlen n - 1" using l u by (rule floor_log_eq)
    then show ?thesis using 2 by (simp add: expo_def n_def)
  next
    case 3
    define y where "y = 1 / \<bar>x\<bar>"
    define m where "m = \<lceil>y\<rceil> - 1"
    have y1: "1 < y" using 3 by (simp add: y_def)
    have my: "of_int m < y" "y \<le> of_int m + 1" by (simp_all add: m_def, linarith+)
    have m1: "1 \<le> m" using y1 unfolding m_def by linarith
    from bitlen_bounds [of m] m1
    have b: "2 ^ nat (bitlen m - 1) \<le> m" "m < 2 ^ nat (bitlen m)" by simp_all
    have bl: "1 \<le> bitlen m" using m1 by (simp add: bitlen_def floorlog_def split: if_splits)
    have xy: "\<bar>x\<bar> = 1 / y" using 3 by (simp add: y_def)
    have yu: "y \<le> 2 ^ nat (bitlen m)"
      using of_int_less_two_power [OF b(2)] my(2) by linarith
    have yl: "2 ^ nat (bitlen m - 1) < y"
      using two_power_le_of_int [OF b(1)] my(1) by linarith
    have p1: "(2::real) powi (- bitlen m) = 1 / 2 ^ nat (bitlen m)"
      using bl by (simp add: power_int_def field_simps)
    have p2: "(2::real) powi (- bitlen m + 1) = 1 / 2 ^ nat (bitlen m - 1)"
    proof (cases "bitlen m = 1")
      case True
      then show ?thesis by simp
    next
      case False
      then have "- bitlen m + 1 < 0" using bl by linarith
      moreover have "nat (- (- bitlen m + 1)) = nat (bitlen m - 1)" by simp
      ultimately show ?thesis by (simp add: power_int_def field_simps)
    qed
    have l: "2 powi (- bitlen m) \<le> \<bar>x\<bar>"
      unfolding p1 xy using yu y1 by (simp add: field_simps)
    have u: "\<bar>x\<bar> < 2 powi (- bitlen m + 1)"
      unfolding p2 xy using yl y1 by (simp add: field_simps)
    have "\<lfloor>log 2 \<bar>x\<bar>\<rfloor> = - bitlen m" using l u by (rule floor_log_eq)
    then show ?thesis using 3 by (simp add: expo_def m_def y_def)
  qed
qed

lemma ulp_pos: "0 < ulp x" by (simp add: ulp_def)

lemma nearest_zero: "nearest 0 = 0"
  by (simp add: nearest_def round_half_even_def)

lemma nearest_error: "\<bar>nearest x - x\<bar> \<le> ulp x / 2"
proof -
  have "nearest x - x = (of_int (round_half_even (x / ulp x)) - x / ulp x) * ulp x"
    using ulp_pos [of x] by (simp add: nearest_def left_diff_distrib)
  then have "\<bar>nearest x - x\<bar> = \<bar>of_int (round_half_even (x / ulp x)) - x / ulp x\<bar> * ulp x"
    using ulp_pos [of x] by (simp add: abs_mult)
  also have "\<dots> \<le> 1/2 * ulp x"
    using round_half_even_error [of "x / ulp x"] ulp_pos [of x] by (intro mult_right_mono) simp_all
  finally show ?thesis by simp
qed

lemma ulp_half_le:
  assumes "x \<noteq> 0"
  shows "ulp x / 2 \<le> 2 powi (-53) * \<bar>x\<bar> + 2 powi (-1075)"
proof (cases "\<lfloor>log 2 \<bar>x\<bar>\<rfloor> \<ge> -1022")
  case True
  then have e: "expo x = \<lfloor>log 2 \<bar>x\<bar>\<rfloor>" by (simp add: expo_def)
  have "ulp x / 2 = 2 powi (-53) * 2 powi \<lfloor>log 2 \<bar>x\<bar>\<rfloor>"
    by (simp add: ulp_def e power_int_diff power_int_minus field_simps)
  also have "\<dots> \<le> 2 powi (-53) * \<bar>x\<bar>"
    using floor_log_le [OF assms] by (simp add: mult_left_mono)
  finally show ?thesis by (smt (verit) zero_less_power_int)
next
  case False
  then have e: "expo x = -1022" by (simp add: expo_def)
  have "ulp x / 2 = 2 powi (-1075)"
    by (simp add: ulp_def e power_int_minus field_simps)
  moreover have "0 \<le> 2 powi (-53) * \<bar>x\<bar>" by simp
  ultimately show ?thesis by linarith
qed

lemma ulp_le_max: assumes "\<bar>x\<bar> < 2 ^ 1024" and "x \<noteq> 0" shows "ulp x \<le> 2 ^ 971"
proof -
  have "\<lfloor>log 2 \<bar>x\<bar>\<rfloor> \<le> 1023"
  proof (rule ccontr)
    assume "\<not> \<lfloor>log 2 \<bar>x\<bar>\<rfloor> \<le> 1023"
    then have "1024 \<le> \<lfloor>log 2 \<bar>x\<bar>\<rfloor>" by simp
    then have "(2::real) powi 1024 \<le> 2 powi \<lfloor>log 2 \<bar>x\<bar>\<rfloor>"
      by (intro power_int_increasing) simp_all
    with floor_log_le [OF assms(2)] assms(1) show False by simp
  qed
  then have "expo x \<le> 1023" by (simp add: expo_def)
  then have "ulp x \<le> 2 powi (1023 - 52)"
    unfolding ulp_def by (intro power_int_increasing) simp_all
  then show ?thesis by simp
qed

lemma rnd_finite: assumes "\<bar>nearest x\<bar> < 2 ^ 1024" shows "rnd x = Fin (nearest x)"
proof -
  have "\<not> nearest x \<ge> 2 ^ 1024" and "\<not> nearest x \<le> - (2 ^ 1024)"
    using assms by linarith+
  then show ?thesis unfolding rnd_def Let_def by (simp only: if_False)
qed

lemma rnd_error:
  assumes "\<bar>x\<bar> \<le> 2 ^ 1023"
  shows "rnd x = Fin (nearest x) \<and> \<bar>nearest x - x\<bar> \<le> 2 powi (-53) * \<bar>x\<bar> + 2 powi (-1075)"
proof (cases "x = 0")
  case True
  then show ?thesis using rnd_finite [of 0] by (simp add: nearest_zero)
next
  case False
  have e1: "\<bar>nearest x - x\<bar> \<le> ulp x / 2" by (rule nearest_error)
  have "ulp x \<le> 2 ^ 971" using assms False by (intro ulp_le_max) simp_all
  moreover have "(2::real) ^ 1023 + 2 ^ 971 / 2 < 2 ^ 1024" by simp
  ultimately have "\<bar>nearest x\<bar> < 2 ^ 1024" using e1 assms by linarith
  then have "rnd x = Fin (nearest x)" by (rule rnd_finite)
  with e1 ulp_half_le [OF False] show ?thesis by auto
qed

lemma rnd_eval:
  assumes "2 powi e \<le> \<bar>x\<bar>" and "\<bar>x\<bar> < 2 powi (e + 1)" and "-1022 \<le> e" and "e \<le> 1022"
  shows "rnd x = Fin (of_int (round_half_even (x / 2 powi (e - 52))) * 2 powi (e - 52))"
proof -
  have "\<lfloor>log 2 \<bar>x\<bar>\<rfloor> = e" using assms(1,2) by (rule floor_log_eq)
  then have u: "ulp x = 2 powi (e - 52)" using assms(3) by (simp add: ulp_def expo_def)
  have "(2::real) powi (e + 1) \<le> 2 powi 1023"
    using assms(4) by (intro power_int_increasing) simp_all
  then have "\<bar>x\<bar> \<le> 2 ^ 1023" using assms(2) by simp
  then have "rnd x = Fin (nearest x)" using rnd_error by blast
  then show ?thesis by (simp add: nearest_def u)
qed

lemma nearest_eval:
  assumes "2 powi e \<le> \<bar>x\<bar>" and "\<bar>x\<bar> < 2 powi (e + 1)" and "-1022 \<le> e"
  shows "nearest x = of_int (round_half_even (x / 2 powi (e - 52))) * 2 powi (e - 52)"
proof -
  have "\<lfloor>log 2 \<bar>x\<bar>\<rfloor> = e" using assms(1,2) by (rule floor_log_eq)
  then have "ulp x = 2 powi (e - 52)" using assms(3) by (simp add: ulp_def expo_def)
  then show ?thesis by (simp add: nearest_def)
qed

lemma rnd_step:
  assumes "- c \<le> z" and "z \<le> c" and "c \<le> 2 ^ 1023"
  shows "\<exists>r. rnd z = Fin r \<and> z - (c + 1 / 1024) / 2 ^ 53 \<le> r \<and> r \<le> z + (c + 1 / 1024) / 2 ^ 53"
proof -
  have az: "\<bar>z\<bar> \<le> c" using assms(1,2) by linarith
  then have "\<bar>z\<bar> \<le> 2 ^ 1023" using assms(3) by linarith
  from rnd_error [OF this]
  have r: "rnd z = Fin (nearest z)"
    and e: "\<bar>nearest z - z\<bar> \<le> 2 powi (-53) * \<bar>z\<bar> + 2 powi (-1075)" by simp_all
  have "(2::real) powi (-1075) = 2 powi (-53) * 2 powi (-1022)"
    by (simp add: power_int_add [symmetric])
  also have "\<dots> \<le> 2 powi (-53) * (1 / 1024)"
    by (intro mult_left_mono) (simp_all add: power_int_minus field_simps)
  finally have h: "(2::real) powi (-1075) \<le> 2 powi (-53) * (1 / 1024)" .
  have "2 powi (-53) * \<bar>z\<bar> \<le> 2 powi (-53) * c"
    using az by (intro mult_left_mono) simp_all
  with e h have "\<bar>nearest z - z\<bar> \<le> 2 powi (-53) * (c + 1 / 1024)"
    by (simp add: algebra_simps)
  also have "\<dots> = (c + 1 / 1024) / 2 ^ 53"
    by (simp add: power_int_minus field_simps)
  finally have "\<bar>nearest z - z\<bar> \<le> (c + 1 / 1024) / 2 ^ 53" .
  then have "z - (c + 1 / 1024) / 2 ^ 53 \<le> nearest z"
    and "nearest z \<le> z + (c + 1 / 1024) / 2 ^ 53" by linarith+
  with r show ?thesis by blast
qed

text \<open>The doubles of the four float literals of the heat category bands.\<close>

lemma rnd_81_9: "rnd 81.9 = Fin (2881600074075341 / 2 ^ 45)"
  by (subst rnd_eval [where e = 6]) (simp_all add: round_half_even_def)

lemma rnd_84_9: "rnd 84.9 = Fin (2987153190341837 / 2 ^ 45)"
  by (subst rnd_eval [where e = 6]) (simp_all add: round_half_even_def)

lemma rnd_87_9: "rnd 87.9 = Fin (3092706306608333 / 2 ^ 45)"
  by (subst rnd_eval [where e = 6]) (simp_all add: round_half_even_def)

lemma rnd_89_9: "rnd 89.9 = Fin (3163075050785997 / 2 ^ 45)"
  by (subst rnd_eval [where e = 6]) (simp_all add: round_half_even_def)

lemmas rnd_band_literals = rnd_81_9 rnd_84_9 rnd_87_9 rnd_89_9

subsection \<open>The claims\<close>

text \<open>
  C1. The decision rules fire in a fixed order. A precipitation override that is present
  (a non-empty string) is returned as it is, before every other rule. With no override
  (\<^verbatim>\<open>None\<close> or the empty string): a wind chill that is present and at most \<open>-20\<close> gives
  the extreme-cold message, whatever the heat category number (also 5), the
  applicability flag and the precipitation level; otherwise a wind chill at most \<open>0\<close>
  gives the high-cold-risk message; otherwise a wind chill at most \<open>20\<close> gives the
  cold-caution message; and only when no cold rule fires does the precipitation level
  \<open>''high''\<close> give the precipitation message, again whatever the heat category. So the
  override precedes the cold rules, which precede the precipitation rule, which precedes
  every heat rule.
\<close>

theorem final_training_decision_priority:
  "(ov = Some s \<and> s \<noteq> [] \<longrightarrow> final_training_decision t wc h app ov pl = s)
   \<and> (\<not> truthy ov \<and> wc = Some w \<and> fle w (Fin (-20)) \<longrightarrow>
        final_training_decision t wc h app ov pl
          = ''NO OUTDOOR TRAINING '' @ em_dash @ '' EXTREME COLD'')
   \<and> (\<not> truthy ov \<and> wc = Some w \<and> \<not> fle w (Fin (-20)) \<and> fle w (Fin 0) \<longrightarrow>
        final_training_decision t wc h app ov pl
          = ''MOVE TRAINING INDOORS / HIGH COLD RISK'')
   \<and> (\<not> truthy ov \<and> wc = Some w \<and> \<not> fle w (Fin 0) \<and> fle w (Fin 20) \<longrightarrow>
        final_training_decision t wc h app ov pl
          = ''LIMIT OUTDOOR TRAINING / USE INDOORS WHEN POSSIBLE (COLD CAUTION)'')
   \<and> (\<not> truthy ov \<and> (wc = None \<or> wc = Some w \<and> \<not> fle w (Fin 20)) \<and> pl = ''high'' \<longrightarrow>
        final_training_decision t wc h app ov pl
          = ''LIMIT OUTDOOR TRAINING / USE INDOORS WHEN POSSIBLE (PRECIPITATION)'')"
proof -
  have mono: "\<And>a b. fle w (Fin a) \<Longrightarrow> a \<le> b \<Longrightarrow> fle w (Fin b)"
    by (cases w) auto
  have n0: "\<not> fle w (Fin 0) \<Longrightarrow> \<not> fle w (Fin (-20))"
    using mono [of "-20" 0] by auto
  have n20: "\<not> fle w (Fin 20) \<Longrightarrow> \<not> fle w (Fin 0) \<and> \<not> fle w (Fin (-20))"
    using mono [of "-20" 20] mono [of 0 20] by auto
  show ?thesis
    using n0 n20 by (auto simp: final_training_decision_def truthy_def)
qed

theorem final_training_decision_priority_witness:
  "final_training_decision (Fin 95) (Some (Fin (-25))) (Some 5) True (Some ''NO OUTDOOR TRAINING'') ''high''
     = ''NO OUTDOOR TRAINING''
   \<and> final_training_decision (Fin 95) (Some (Fin (-25))) (Some 5) True None ''high''
     = ''NO OUTDOOR TRAINING '' @ em_dash @ '' EXTREME COLD''
   \<and> final_training_decision (Fin 95) (Some (Fin (-5))) (Some 5) True None ''high''
     = ''MOVE TRAINING INDOORS / HIGH COLD RISK''
   \<and> final_training_decision (Fin 95) (Some (Fin 10)) (Some 5) True None ''high''
     = ''LIMIT OUTDOOR TRAINING / USE INDOORS WHEN POSSIBLE (COLD CAUTION)''
   \<and> final_training_decision (Fin 95) (Some (Fin 25)) (Some 5) True None ''high''
     = ''LIMIT OUTDOOR TRAINING / USE INDOORS WHEN POSSIBLE (PRECIPITATION)''"
  using
    final_training_decision_priority [where ov = "Some ''NO OUTDOOR TRAINING''"
      and s = "''NO OUTDOOR TRAINING''" and t = "Fin 95" and wc = "Some (Fin (-25))"
      and h = "Some 5" and app = True and pl = "''high''"]
    final_training_decision_priority [where ov = None and w = "Fin (-25)" and t = "Fin 95"
      and wc = "Some (Fin (-25))" and h = "Some 5" and app = True and pl = "''high''"]
    final_training_decision_priority [where ov = None and w = "Fin (-5)" and t = "Fin 95"
      and wc = "Some (Fin (-5))" and h = "Some 5" and app = True and pl = "''high''"]
    final_training_decision_priority [where ov = None and w = "Fin 10" and t = "Fin 95"
      and wc = "Some (Fin 10)" and h = "Some 5" and app = True and pl = "''high''"]
    final_training_decision_priority [where ov = None and w = "Fin 25" and t = "Fin 95"
      and wc = "Some (Fin 25)" and h = "Some 5" and app = True and pl = "''high''"]
  by (simp add: truthy_def)

text \<open>
  C2. For every condition text whose lower-cased form contains \<open>thunder\<close> or \<open>storm\<close>
  (so for \<open>Severe Thunderstorms Expected\<close>), the interpreter returns the severity
  \<open>extreme\<close> with the override \<open>NO OUTDOOR TRAINING\<close>, and the final decision taken with
  that override is that string, for every temperature, wind chill, heat category number,
  applicability flag and precipitation level.
\<close>

theorem thunder_storm_override:
  assumes "is_in ''thunder'' (lower txt) \<or> is_in ''storm'' (lower txt)"
  shows "interpret_condition (Some txt)
           = (''extreme'', ''Thunderstorm / lightning risk'', Some ''NO OUTDOOR TRAINING'')
         \<and> final_training_decision t wc h app (snd (snd (interpret_condition (Some txt)))) pl
           = ''NO OUTDOOR TRAINING''"
proof -
  have ic: "interpret_condition (Some txt)
           = (''extreme'', ''Thunderstorm / lightning risk'', Some ''NO OUTDOOR TRAINING'')"
    using assms by (simp add: interpret_condition_def)
  show ?thesis
    by (simp add: ic final_training_decision_def truthy_def)
qed

theorem thunder_storm_override_witness:
  "interpret_condition (Some ''Severe Thunderstorms Expected'')
     = (''extreme'', ''Thunderstorm / lightning risk'', Some ''NO OUTDOOR TRAINING'')
   \<and> final_training_decision (Fin 95) (Some (Fin (-25))) (Some 5) True
       (snd (snd (interpret_condition (Some ''Severe Thunderstorms Expected'')))) ''extreme''
     = ''NO OUTDOOR TRAINING''"
proof -
  have h: "is_in ''thunder'' (lower ''Severe Thunderstorms Expected'')
           \<or> is_in ''storm'' (lower ''Severe Thunderstorms Expected'')"
    by code_simp
  show ?thesis
    by (rule thunder_storm_override [OF h])
qed

text \<open>
  C3. The claim is that every real value falls in the category of the half-open table.
  The source tests each band against an upper bound with one decimal (\<open>81.9\<close>, \<open>84.9\<close>,
  \<open>87.9\<close>, \<open>89.9\<close>), so a value strictly between such a bound and the next lower bound
  matches no band and reaches the last \<^verbatim>\<open>return\<close>: at \<open>81.95\<close> the function returns
  Black (5) where the table gives White (1). The value \<open>82\<close> itself maps to Green in both.
\<close>

theorem heat_category_gap_falls_to_black:
  "heat_category_from_wbgt_f (Fin 81.95) = (''Black (Cat 5)'', 5)
   \<and> heat_category_table 81.95 = (''White (Cat 1)'', 1)
   \<and> heat_category_from_wbgt_f (Fin 82) = (''Green (Cat 2)'', 2)"
  by (simp add: heat_category_from_wbgt_f_def heat_category_table_def rnd_band_literals)

text \<open>
  Outside the four open gaps the function and the table agree (the double of each upper
  bound lies just above its decimal), and a value above the double of an upper bound and
  below the next lower bound gives Black. So the defect is confined to values with more
  than one decimal place just below 82, 85, 88 and 90.
\<close>

lemma heat_category_agrees_outside_gaps:
  assumes "\<not> (81.9 < x \<and> x < 82)" and "\<not> (84.9 < x \<and> x < 85)"
    and "\<not> (87.9 < x \<and> x < 88)" and "\<not> (89.9 < x \<and> x < 90)"
  shows "heat_category_from_wbgt_f (Fin x) = heat_category_table x"
  using assms
  by (simp add: heat_category_from_wbgt_f_def heat_category_table_def rnd_band_literals)

lemma heat_category_in_gap_is_black:
  assumes "(2881600074075341 / 2 ^ 45 < x \<and> x < 82)
           \<or> (2987153190341837 / 2 ^ 45 < x \<and> x < 85)
           \<or> (3092706306608333 / 2 ^ 45 < x \<and> x < 88)
           \<or> (3163075050785997 / 2 ^ 45 < x \<and> x < 90)"
  shows "heat_category_from_wbgt_f (Fin x) = (''Black (Cat 5)'', 5)"
  using assms by (auto simp: heat_category_from_wbgt_f_def rnd_band_literals)

text \<open>
  C5. The claim is that a text matched by the blizzard rule gets the override
  \<open>NO OUTDOOR TRAINING\<close>, the string of the three rules before it. The source returns
  \<open>NO OUTDOOR_TRAINING\<close>, with an underscore, for this rule only: here for the text
  \<open>Blizzard\<close>.
\<close>

theorem blizzard_override_spelling:
  "interpret_condition (Some ''Blizzard'')
     = (''extreme'', ''Blizzard / near-zero visibility'', Some ''NO OUTDOOR_TRAINING'')"
  by code_simp

text \<open>
  C6. The claim is that a NaN input makes the classifier fail instead of returning a
  category. The source has no check of its argument: it returns Black (5) for NaN.
\<close>

theorem heat_category_nan_is_black:
  "heat_category_from_wbgt_f NaN = (''Black (Cat 5)'', 5)"
  by (simp add: heat_category_from_wbgt_f_def)

text \<open>
  C6, as amended. For a NaN input the classifier raises nothing: every comparison with
  NaN is false, so no band test succeeds and the last \<^verbatim>\<open>return\<close> gives Black (5).
\<close>

theorem heat_category_nan_no_failure:
  "\<not> flt NaN b \<and> \<not> fle a NaN \<and> \<not> fle NaN b
   \<and> heat_category_from_wbgt_f NaN = (''Black (Cat 5)'', 5)"
  by (cases a) (simp_all add: heat_category_from_wbgt_f_def)

text \<open>
  Two runs of the conversions in double arithmetic, operation by operation: from \<open>1.0\<close>
  to Fahrenheit and back, and from \<open>2 ^ 1023\<close> to Fahrenheit.
\<close>

lemma c_to_f_one: "c_to_f (Fin 1) = Inr (Fin (2378463553205043 / 2 ^ 46))"
proof -
  have "rnd 9 = Fin 9"
    by (subst rnd_eval [where e = 3]) (simp_all add: round_half_even_def)
  moreover have "rnd (9 / 5) = Fin (8106479329266893 / 2 ^ 52)"
    by (subst rnd_eval [where e = 0]) (simp_all add: round_half_even_def)
  moreover have "rnd (8106479329266893 / 2 ^ 52 + 32) = Fin (2378463553205043 / 2 ^ 46)"
    by (subst rnd_eval [where e = 5]) (simp_all add: round_half_even_def)
  ultimately show ?thesis by (simp add: c_to_f_def)
qed

lemma f_to_c_of_that:
  "f_to_c (Fin (2378463553205043 / 2 ^ 46)) = Inr (Fin (4503599627370489 / 2 ^ 52))"
proof -
  have "rnd (2378463553205043 / 2 ^ 46 - 32) = Fin (126663739519795 / 2 ^ 46)"
    by (subst rnd_eval [where e = 0]) (simp_all add: round_half_even_def)
  moreover have "rnd (126663739519795 / 2 ^ 46 * 5) = Fin (633318697598975 / 2 ^ 46)"
    by (subst rnd_eval [where e = 3]) (simp_all add: round_half_even_def)
  moreover have "rnd (633318697598975 / 2 ^ 46 / 9) = Fin (4503599627370489 / 2 ^ 52)"
    by (subst rnd_eval [where e = "-1"]) (simp_all add: round_half_even_def)
  ultimately show ?thesis by (simp add: f_to_c_def)
qed

lemma c_to_f_overflow: "c_to_f (Fin (2 ^ 1023)) = Inr PInf"
proof -
  have "nearest (2 ^ 1023 * 9) = 2 ^ 1023 * 9"
    by (subst nearest_eval [where e = 1026]) (simp_all add: round_half_even_def)
  then have "rnd (2 ^ 1023 * 9) = PInf" by (simp add: rnd_def)
  then show ?thesis by (simp add: c_to_f_def inf_signed_def)
qed

lemma f_to_c_PInf: "f_to_c PInf = Inr PInf"
  by (simp add: f_to_c_def inf_signed_def)

text \<open>
  C9. The claim is that each round trip returns its argument for every finite \<open>x\<close>, up to
  a floating-point epsilon. In the double arithmetic of the source each of the six
  operations of a round trip rounds. From \<open>1.0\<close>, \<^verbatim>\<open>c_to_f\<close> gives the double of \<open>33.8\<close>
  and \<^verbatim>\<open>f_to_c\<close> of that gives \<open>1 - 7 / 2 ^ 52\<close> (printed \<^verbatim>\<open>0.9999999999999984\<close>), seven
  epsilons below \<open>1.0\<close>. From the finite double \<open>2 ^ 1023\<close> the product by \<open>9.0\<close>
  overflows: \<^verbatim>\<open>c_to_f\<close> gives infinity, and so does the way back.
\<close>

theorem roundtrip_not_exact:
  "c_to_f (Fin 1) = Inr (Fin (2378463553205043 / 2 ^ 46))
   \<and> f_to_c (Fin (2378463553205043 / 2 ^ 46)) = Inr (Fin (1 - 7 / 2 ^ 52))
   \<and> \<bar>(1 - 7 / 2 ^ 52) - 1\<bar> > (1 / 2 ^ 52 :: real)
   \<and> c_to_f (Fin (2 ^ 1023)) = Inr PInf \<and> f_to_c PInf = Inr PInf"
  using c_to_f_one f_to_c_of_that c_to_f_overflow f_to_c_PInf by simp

text \<open>
  The rounding errors of the six operations of each round trip, followed through the two
  conversions: first Celsius to Fahrenheit and back, then Fahrenheit to Celsius and back.
\<close>

lemma roundtrip_c_f_c:
  assumes "\<bar>x\<bar> \<le> 2 ^ 1019"
  shows "\<exists>f y. c_to_f (Fin x) = Inr (Fin f) \<and> f_to_c (Fin f) = Inr (Fin y)
               \<and> \<bar>y - x\<bar> \<le> (\<bar>x\<bar> + 32) / 2 ^ 50"
proof -
  define X where "X = \<bar>x\<bar>"
  have X: "0 \<le> X" "- X \<le> x" "x \<le> X"
    by (simp_all add: X_def)
  have "(2::real) ^ 1019 * 10 + 1000 \<le> 2 ^ 1023" by simp
  then have big: "X * 10 + 1000 \<le> 2 ^ 1023" using assms unfolding X_def by linarith
  obtain b1 where b1: "rnd (x * 9) = Fin b1"
      "x * 9 - (9 * X + 1 / 1024) / 2 ^ 53 \<le> b1" "b1 \<le> x * 9 + (9 * X + 1 / 1024) / 2 ^ 53"
    using rnd_step [of "9 * X" "x * 9"] X big by auto
  have m1: "- (9.01 * X + 0.01) \<le> b1" "b1 \<le> 9.01 * X + 0.01"
    using b1(2,3) X by (simp_all add: add_divide_distrib diff_divide_distrib)
  obtain b2 where b2: "rnd (b1 / 5) = Fin b2"
      "b1 / 5 - (1.81 * X + 0.01 + 1 / 1024) / 2 ^ 53 \<le> b2"
      "b2 \<le> b1 / 5 + (1.81 * X + 0.01 + 1 / 1024) / 2 ^ 53"
    using rnd_step [of "1.81 * X + 0.01" "b1 / 5"] m1 X big by auto
  have m2: "- (1.81 * X + 0.01) \<le> b2" "b2 \<le> 1.81 * X + 0.01"
    using b2(2,3) m1 X by (simp_all add: add_divide_distrib diff_divide_distrib)
  obtain b3 where b3: "rnd (b2 + 32) = Fin b3"
      "b2 + 32 - (1.81 * X + 32.01 + 1 / 1024) / 2 ^ 53 \<le> b3"
      "b3 \<le> b2 + 32 + (1.81 * X + 32.01 + 1 / 1024) / 2 ^ 53"
    using rnd_step [of "1.81 * X + 32.01" "b2 + 32"] m2 X big by auto
  have m3: "- (1.82 * X + 0.02) \<le> b3 - 32" "b3 - 32 \<le> 1.82 * X + 0.02"
    using b3(2,3) m2 X by (simp_all add: add_divide_distrib diff_divide_distrib)
  obtain a1 where a1: "rnd (b3 - 32) = Fin a1"
      "b3 - 32 - (1.82 * X + 0.02 + 1 / 1024) / 2 ^ 53 \<le> a1"
      "a1 \<le> b3 - 32 + (1.82 * X + 0.02 + 1 / 1024) / 2 ^ 53"
    using rnd_step [of "1.82 * X + 0.02" "b3 - 32"] m3 X big by auto
  have m4: "- (1.83 * X + 0.03) \<le> a1" "a1 \<le> 1.83 * X + 0.03"
    using a1(2,3) m3 X by (simp_all add: add_divide_distrib diff_divide_distrib)
  obtain a2 where a2: "rnd (a1 * 5) = Fin a2"
      "a1 * 5 - (9.15 * X + 0.15 + 1 / 1024) / 2 ^ 53 \<le> a2"
      "a2 \<le> a1 * 5 + (9.15 * X + 0.15 + 1 / 1024) / 2 ^ 53"
    using rnd_step [of "9.15 * X + 0.15" "a1 * 5"] m4 X big by auto
  have m5: "- (9.16 * X + 0.16) \<le> a2" "a2 \<le> 9.16 * X + 0.16"
    using a2(2,3) m4 X by (simp_all add: add_divide_distrib diff_divide_distrib)
  obtain a3 where a3: "rnd (a2 / 9) = Fin a3"
      "a2 / 9 - (1.02 * X + 0.02 + 1 / 1024) / 2 ^ 53 \<le> a3"
      "a3 \<le> a2 / 9 + (1.02 * X + 0.02 + 1 / 1024) / 2 ^ 53"
    using rnd_step [of "1.02 * X + 0.02" "a2 / 9"] m5 X big by auto
  have c: "c_to_f (Fin x) = Inr (Fin b3)"
    by (simp add: c_to_f_def b1(1) b2(1) b3(1))
  have f: "f_to_c (Fin b3) = Inr (Fin a3)"
    by (simp add: f_to_c_def a1(1) a2(1) a3(1))
  have "a3 - x \<le> (X + 32) / 2 ^ 50" and "- (a3 - x) \<le> (X + 32) / 2 ^ 50"
    using b1(2,3) b2(2,3) b3(2,3) a1(2,3) a2(2,3) a3(2,3) X
    by (simp_all add: add_divide_distrib diff_divide_distrib)
  then have "\<bar>a3 - x\<bar> \<le> (\<bar>x\<bar> + 32) / 2 ^ 50"
    unfolding X_def by linarith
  with c f show ?thesis by blast
qed

lemma roundtrip_f_c_f:
  assumes "\<bar>x\<bar> \<le> 2 ^ 1019"
  shows "\<exists>c y. f_to_c (Fin x) = Inr (Fin c) \<and> c_to_f (Fin c) = Inr (Fin y)
               \<and> \<bar>y - x\<bar> \<le> (\<bar>x\<bar> + 32) / 2 ^ 50"
proof -
  define X where "X = \<bar>x\<bar>"
  have X: "0 \<le> X" "- X \<le> x" "x \<le> X"
    by (simp_all add: X_def)
  have "(2::real) ^ 1019 * 10 + 1000 \<le> 2 ^ 1023" by simp
  then have big: "X * 10 + 1000 \<le> 2 ^ 1023" using assms unfolding X_def by linarith
  obtain a1 where a1: "rnd (x - 32) = Fin a1"
      "x - 32 - (X + 32 + 1 / 1024) / 2 ^ 53 \<le> a1"
      "a1 \<le> x - 32 + (X + 32 + 1 / 1024) / 2 ^ 53"
    using rnd_step [of "X + 32" "x - 32"] X big by auto
  have m1: "- (1.01 * X + 32.01) \<le> a1" "a1 \<le> 1.01 * X + 32.01"
    using a1(2,3) X by (simp_all add: add_divide_distrib diff_divide_distrib)
  obtain a2 where a2: "rnd (a1 * 5) = Fin a2"
      "a1 * 5 - (5.05 * X + 160.05 + 1 / 1024) / 2 ^ 53 \<le> a2"
      "a2 \<le> a1 * 5 + (5.05 * X + 160.05 + 1 / 1024) / 2 ^ 53"
    using rnd_step [of "5.05 * X + 160.05" "a1 * 5"] m1 X big by auto
  have m2: "- (5.06 * X + 160.1) \<le> a2" "a2 \<le> 5.06 * X + 160.1"
    using a2(2,3) m1 X by (simp_all add: add_divide_distrib diff_divide_distrib)
  obtain a3 where a3: "rnd (a2 / 9) = Fin a3"
      "a2 / 9 - (0.563 * X + 17.79 + 1 / 1024) / 2 ^ 53 \<le> a3"
      "a3 \<le> a2 / 9 + (0.563 * X + 17.79 + 1 / 1024) / 2 ^ 53"
    using rnd_step [of "0.563 * X + 17.79" "a2 / 9"] m2 X big by auto
  have m3: "- (0.57 * X + 17.8) \<le> a3" "a3 \<le> 0.57 * X + 17.8"
    using a3(2,3) m2 X by (simp_all add: add_divide_distrib diff_divide_distrib)
  obtain b1 where b1: "rnd (a3 * 9) = Fin b1"
      "a3 * 9 - (5.13 * X + 160.2 + 1 / 1024) / 2 ^ 53 \<le> b1"
      "b1 \<le> a3 * 9 + (5.13 * X + 160.2 + 1 / 1024) / 2 ^ 53"
    using rnd_step [of "5.13 * X + 160.2" "a3 * 9"] m3 X big by auto
  have m4: "- (5.14 * X + 160.3) \<le> b1" "b1 \<le> 5.14 * X + 160.3"
    using b1(2,3) m3 X by (simp_all add: add_divide_distrib diff_divide_distrib)
  obtain b2 where b2: "rnd (b1 / 5) = Fin b2"
      "b1 / 5 - (1.028 * X + 32.06 + 1 / 1024) / 2 ^ 53 \<le> b2"
      "b2 \<le> b1 / 5 + (1.028 * X + 32.06 + 1 / 1024) / 2 ^ 53"
    using rnd_step [of "1.028 * X + 32.06" "b1 / 5"] m4 X big by auto
  have m5: "- (1.01 * X + 0.01) \<le> b2 + 32" "b2 + 32 \<le> 1.01 * X + 0.01"
    using a1(2,3) a2(2,3) a3(2,3) b1(2,3) b2(2,3) X by (simp_all add: add_divide_distrib diff_divide_distrib)
  obtain b3 where b3: "rnd (b2 + 32) = Fin b3"
      "b2 + 32 - (1.01 * X + 0.01 + 1 / 1024) / 2 ^ 53 \<le> b3"
      "b3 \<le> b2 + 32 + (1.01 * X + 0.01 + 1 / 1024) / 2 ^ 53"
    using rnd_step [of "1.01 * X + 0.01" "b2 + 32"] m5 X big by auto
  have f: "f_to_c (Fin x) = Inr (Fin a3)"
    by (simp add: f_to_c_def a1(1) a2(1) a3(1))
  have c: "c_to_f (Fin a3) = Inr (Fin b3)"
    by (simp add: c_to_f_def b1(1) b2(1) b3(1))
  have "b3 - x \<le> (X + 32) / 2 ^ 50" and "- (b3 - x) \<le> (X + 32) / 2 ^ 50"
    using a1(2,3) a2(2,3) a3(2,3) b1(2,3) b2(2,3) b3(2,3) X
    by (simp_all add: add_divide_distrib diff_divide_distrib)
  then have "\<bar>b3 - x\<bar> \<le> (\<bar>x\<bar> + 32) / 2 ^ 50"
    unfolding X_def by linarith
  with c f show ?thesis by blast
qed

text \<open>
  C9, as amended. For every finite \<open>x\<close> with \<open>\<bar>x\<bar> \<le> 2 ^ 1019\<close>, each round trip in double
  arithmetic raises nothing and returns a finite \<open>y\<close> with
  \<open>\<bar>y - x\<bar> \<le> (\<bar>x\<bar> + 32) / 2 ^ 50\<close>, that is four epsilons (of \<open>2 ^ (-52)\<close>) relative to
  \<open>\<bar>x\<bar> + 32\<close>. Each of the six operations adds at most its own rounding error, which is
  followed through the two conversions.
\<close>

theorem roundtrip_within_rounding:
  assumes "\<bar>x\<bar> \<le> 2 ^ 1019"
  shows "(\<exists>c y. f_to_c (Fin x) = Inr (Fin c) \<and> c_to_f (Fin c) = Inr (Fin y)
            \<and> \<bar>y - x\<bar> \<le> (\<bar>x\<bar> + 32) / 2 ^ 50)
       \<and> (\<exists>f y. c_to_f (Fin x) = Inr (Fin f) \<and> f_to_c (Fin f) = Inr (Fin y)
            \<and> \<bar>y - x\<bar> \<le> (\<bar>x\<bar> + 32) / 2 ^ 50)"
  using roundtrip_f_c_f [OF assms] roundtrip_c_f_c [OF assms] by blast

theorem roundtrip_within_rounding_witness:
  "(\<exists>c y. f_to_c (Fin 1) = Inr (Fin c) \<and> c_to_f (Fin c) = Inr (Fin y)
            \<and> \<bar>y - 1\<bar> \<le> 33 / 2 ^ 50)
       \<and> (\<exists>f y. c_to_f (Fin 1) = Inr (Fin f) \<and> f_to_c (Fin f) = Inr (Fin y)
            \<and> \<bar>y - 1\<bar> \<le> 33 / 2 ^ 50)"
  using roundtrip_within_rounding [of 1] by simp

text \<open>
  C4. The wind chill is present and equal to the closed formula
  \<open>35.74 + 0.6215 * T - 35.75 * V powr 0.16 + 0.4275 * T * V powr 0.16\<close> whenever the
  temperature is at most 50 and the wind speed is above 3, and it is absent (\<open>None\<close>) whenever the
  temperature is above 50 or the wind speed is at most 3.
\<close>

theorem wind_chill_f_applicability:
  "(Tf \<le> 50 \<and> 3 < V \<longrightarrow>
      wind_chill_f Tf V =
        Some (35.74 + 0.6215 * Tf - 35.75 * V powr 0.16 + 0.4275 * Tf * V powr 0.16))
   \<and> (50 < Tf \<or> V \<le> 3 \<longrightarrow> wind_chill_f Tf V = None)"
  by (auto simp: wind_chill_f_def)

theorem wind_chill_f_applicability_witness:
  "wind_chill_f 10 25 =
     Some (35.74 + 0.6215 * 10 - 35.75 * 25 powr 0.16 + 0.4275 * 10 * 25 powr 0.16)
   \<and> wind_chill_f 60 25 = None \<and> wind_chill_f 10 3 = None"
  using wind_chill_f_applicability [of 10 25] wind_chill_f_applicability [of 60 25]
    wind_chill_f_applicability [of 10 3]
  by simp

text \<open>
  C7. The WBGT estimate accepts every relative humidity, also outside \<open>[0, 100]\<close>, and
  returns for it the triple it returns for the humidity clamped to \<open>[0, 100]\<close>, whatever
  the temperature, the sunny flag and the globe offset.
\<close>

theorem approx_wbgt_clamps_humidity:
  "approx_wbgt Tc rh sunny globe_offset_c =
     approx_wbgt Tc (max 0 (min 100 rh)) sunny globe_offset_c"
  by (simp add: approx_wbgt_def approx_natural_wet_bulb_def)

text \<open>
  C8. When \<^verbatim>\<open>float(temp_f)\<close> raises, whatever the error, the PT uniform is the default
  \<open>''Standard PT uniform''\<close> and nothing is raised; when the conversion gives a float,
  the PT uniform is one of the five band strings.
\<close>

theorem recommend_pt_uniform_default_or_band:
  "(py_float parse v = Inl e \<longrightarrow> recommend_pt_uniform parse v = ''Standard PT uniform'')
   \<and> (py_float parse v = Inr t \<longrightarrow> recommend_pt_uniform parse v \<in> set pt_band_strings)"
  by (simp add: recommend_pt_uniform_def pt_band_strings_def)

theorem recommend_pt_uniform_default_or_band_witness:
  "recommend_pt_uniform (\<lambda>s. None) (PyStr ''n/a'') = ''Standard PT uniform''
   \<and> recommend_pt_uniform (\<lambda>s. None) PyNone = ''Standard PT uniform''
   \<and> recommend_pt_uniform (\<lambda>s. None) (PyFloat (Fin 72)) \<in> set pt_band_strings
   \<and> recommend_pt_uniform (\<lambda>s. None) (PyFloat NaN) \<in> set pt_band_strings"
  using recommend_pt_uniform_default_or_band [of "\<lambda>s. None" "PyStr ''n/a''" ValueError]
    recommend_pt_uniform_default_or_band [of "\<lambda>s. None" PyNone TypeError]
    recommend_pt_uniform_default_or_band [of "\<lambda>s. None" "PyFloat (Fin 72)" _ "Fin 72"]
    recommend_pt_uniform_default_or_band [of "\<lambda>s. None" "PyFloat NaN" _ NaN]
  by (simp add: py_float_def)

text \<open>
  C10. The duty uniform does not depend on the precipitation level: with the temperature,
  the wind chill, the heat category number and the applicability flag fixed, any two
  precipitation levels give the same pair of text and level.
\<close>

theorem recommend_uniform_option_a_ignores_precip:
  "recommend_uniform_option_a temp_f wc h app p1 = recommend_uniform_option_a temp_f wc h app p2"
  by (simp add: recommend_uniform_option_a_def)

end
